theory Spec2Isabelle
  imports Complex_Main "HOL-Library.Word"
begin

unbundle bit_operations_syntax

section \<open>The Type capability\<close>

text \<open>
  \<^verbatim>\<open>channel.go\<close> consults types only through \<^verbatim>\<open>Kind()\<close>, \<^verbatim>\<open>ChanDir()\<close>, \<^verbatim>\<open>Elem()\<close>,
  \<^verbatim>\<open>AssignableTo\<close> and identity against the predefined basic types. The seventeen
  scalar kinds that the file enumerates by hand (\<^verbatim>\<open>r.Bool\<close>, \<^verbatim>\<open>r.Int\<close>, ..., \<^verbatim>\<open>r.String\<close>)
  are one datatype, so that the seventeen textually identical \<^verbatim>\<open>case\<close> arms of each
  \<^verbatim>\<open>switch\<close> become one arm with the kind as its argument.
\<close>

datatype basic =
    r_Bool
  | r_Int | r_Int8 | r_Int16 | r_Int32 | r_Int64
  | r_Uint | r_Uint8 | r_Uint16 | r_Uint32 | r_Uint64 | r_Uintptr
  | r_Float32 | r_Float64
  | r_Complex64 | r_Complex128
  | r_String

datatype okind =
    r_Invalid | r_Array | r_Func | r_Interface | r_Map | r_Ptr | r_Slice | r_Struct
  | r_UnsafePointer

text \<open>\<^verbatim>\<open>reflect.Kind\<close>: a scalar kind, \<^verbatim>\<open>r.Chan\<close>, or one of the remaining kinds.\<close>

datatype kind = Basic basic | r_Chan | Other okind

text \<open>
  \<^verbatim>\<open>reflect.ChanDir\<close> with its bit encoding: \<^verbatim>\<open>RecvDir = 1\<close>, \<^verbatim>\<open>SendDir = 2\<close>,
  \<^verbatim>\<open>BothDir = RecvDir | SendDir\<close>. The source tests permissions with \<^verbatim>\<open>&\<close>.
\<close>

datatype chan_dir = r_RecvDir | r_SendDir | r_BothDir

fun dir_bits :: "chan_dir \<Rightarrow> nat" where
  "dir_bits r_RecvDir = 1"
| "dir_bits r_SendDir = 2"
| "dir_bits r_BothDir = 3"

text \<open>
  A \<^verbatim>\<open>Type\<close>: a predefined basic type, a user-defined type (a name and the type it is
  declared from), a channel type with its direction and element type, or any other type
  (its kind and a description). Equality of \<open>xtype\<close> values is type identity: a user
  type declared from \<^verbatim>\<open>int\<close> has kind \<^verbatim>\<open>r.Int\<close> and differs from the predefined \<^verbatim>\<open>int\<close>.
\<close>

datatype xtype =
    BasicT basic
  | NamedT string xtype
  | ChanT chan_dir xtype
  | OtherT okind string

fun Kind :: "xtype \<Rightarrow> kind" where
  "Kind (BasicT b) = Basic b"
| "Kind (NamedT n u) = Kind u"
| "Kind (ChanT d e) = r_Chan"
| "Kind (OtherT k s) = Other k"

text \<open>
  \<^verbatim>\<open>ChanDir()\<close> and \<^verbatim>\<open>Elem()\<close> panic on a type that is not of channel kind; \<open>None\<close> is
  that panic.
\<close>

fun ChanDir :: "xtype \<Rightarrow> chan_dir option" where
  "ChanDir (ChanT d e) = Some d"
| "ChanDir (NamedT n u) = ChanDir u"
| "ChanDir (BasicT b) = None"
| "ChanDir (OtherT k s) = None"

fun Elem :: "xtype \<Rightarrow> xtype option" where
  "Elem (ChanT d e) = Some e"
| "Elem (NamedT n u) = Elem u"
| "Elem (BasicT b) = None"
| "Elem (OtherT k s) = None"

text \<open>\<^verbatim>\<open>BasicType(kind)\<close> and the constants \<^verbatim>\<open>xr.TypeOfBool\<close>, ..., \<^verbatim>\<open>xr.TypeOfString\<close>.\<close>

definition BasicType :: "basic \<Rightarrow> xtype" where
  "BasicType b = BasicT b"

definition xr_TypeOf :: "basic \<Rightarrow> xtype" where
  "xr_TypeOf b = BasicT b"

definition xr_TypeOfBool :: xtype where
  "xr_TypeOfBool = xr_TypeOf r_Bool"

section \<open>Values\<close>

text \<open>
  A Go value of one of the scalar types, a channel reference (\<open>None\<close> is the nil
  channel) or any other value. Integers have the width of their type, with \<^verbatim>\<open>int\<close>,
  \<^verbatim>\<open>uint\<close> and \<^verbatim>\<open>uintptr\<close> taken as 64 bits wide. A floating-point or complex value is
  the number it denotes; rounding is not modelled.
\<close>

datatype gvalue =
    VBool bool
  | VInt "64 word" | VInt8 "8 word" | VInt16 "16 word" | VInt32 "32 word" | VInt64 "64 word"
  | VUint "64 word" | VUint8 "8 word" | VUint16 "16 word" | VUint32 "32 word"
  | VUint64 "64 word" | VUintptr "64 word"
  | VFloat32 real | VFloat64 real
  | VComplex64 complex | VComplex128 complex
  | VString string
  | VChan "nat option"
  | VOther nat

text \<open>A \<^verbatim>\<open>reflect.Value\<close>: a Go value together with its type.\<close>

datatype rvalue = RValue (vType: xtype) (vInterface: gvalue)

datatype fault =
    SendOnClosedChannel
  | InterfaceConversion
  | ReflectPanic
  | IndexOutOfRange
  | NilDereference

text \<open>The accessors of \<^verbatim>\<open>reflect.Value\<close>; each panics on a value of another kind.\<close>

fun Value_Bool :: "rvalue \<Rightarrow> fault + bool" where
  "Value_Bool (RValue t (VBool b)) = Inr b"
| "Value_Bool v = Inl ReflectPanic"

fun Value_Int :: "rvalue \<Rightarrow> fault + 64 word" where
  "Value_Int (RValue t (VInt w)) = Inr w"
| "Value_Int (RValue t (VInt8 w)) = Inr (scast w)"
| "Value_Int (RValue t (VInt16 w)) = Inr (scast w)"
| "Value_Int (RValue t (VInt32 w)) = Inr (scast w)"
| "Value_Int (RValue t (VInt64 w)) = Inr w"
| "Value_Int v = Inl ReflectPanic"

fun Value_Uint :: "rvalue \<Rightarrow> fault + 64 word" where
  "Value_Uint (RValue t (VUint w)) = Inr w"
| "Value_Uint (RValue t (VUint8 w)) = Inr (ucast w)"
| "Value_Uint (RValue t (VUint16 w)) = Inr (ucast w)"
| "Value_Uint (RValue t (VUint32 w)) = Inr (ucast w)"
| "Value_Uint (RValue t (VUint64 w)) = Inr w"
| "Value_Uint (RValue t (VUintptr w)) = Inr w"
| "Value_Uint v = Inl ReflectPanic"

fun Value_Float :: "rvalue \<Rightarrow> fault + real" where
  "Value_Float (RValue t (VFloat32 x)) = Inr x"
| "Value_Float (RValue t (VFloat64 x)) = Inr x"
| "Value_Float v = Inl ReflectPanic"

fun Value_Complex :: "rvalue \<Rightarrow> fault + complex" where
  "Value_Complex (RValue t (VComplex64 x)) = Inr x"
| "Value_Complex (RValue t (VComplex128 x)) = Inr x"
| "Value_Complex v = Inl ReflectPanic"

text \<open>\<^verbatim>\<open>Value.String()\<close> does not panic: on another kind it returns a description.\<close>

fun Value_String :: "rvalue \<Rightarrow> fault + string" where
  "Value_String (RValue t (VString s)) = Inr s"
| "Value_String v = Inr ''<Value>''"

text \<open>
  The accessor and the conversion that each scalar arm applies to a \<^verbatim>\<open>reflect.Value\<close>:
  \<^verbatim>\<open>retv.Bool()\<close>, \<^verbatim>\<open>int(retv.Int())\<close>, \<^verbatim>\<open>int8(retv.Int())\<close>, ..., \<^verbatim>\<open>retv.String()\<close>.
  The integer conversions truncate to the width of the target.
\<close>

fun unbox :: "basic \<Rightarrow> rvalue \<Rightarrow> fault + gvalue" where
  "unbox r_Bool v = map_sum id VBool (Value_Bool v)"
| "unbox r_Int v = map_sum id VInt (Value_Int v)"
| "unbox r_Int8 v = map_sum id (\<lambda>w. VInt8 (ucast w)) (Value_Int v)"
| "unbox r_Int16 v = map_sum id (\<lambda>w. VInt16 (ucast w)) (Value_Int v)"
| "unbox r_Int32 v = map_sum id (\<lambda>w. VInt32 (ucast w)) (Value_Int v)"
| "unbox r_Int64 v = map_sum id VInt64 (Value_Int v)"
| "unbox r_Uint v = map_sum id VUint (Value_Uint v)"
| "unbox r_Uint8 v = map_sum id (\<lambda>w. VUint8 (ucast w)) (Value_Uint v)"
| "unbox r_Uint16 v = map_sum id (\<lambda>w. VUint16 (ucast w)) (Value_Uint v)"
| "unbox r_Uint32 v = map_sum id (\<lambda>w. VUint32 (ucast w)) (Value_Uint v)"
| "unbox r_Uint64 v = map_sum id VUint64 (Value_Uint v)"
| "unbox r_Uintptr v = map_sum id VUintptr (Value_Uint v)"
| "unbox r_Float32 v = map_sum id VFloat32 (Value_Float v)"
| "unbox r_Float64 v = map_sum id VFloat64 (Value_Float v)"
| "unbox r_Complex64 v = map_sum id VComplex64 (Value_Complex v)"
| "unbox r_Complex128 v = map_sum id VComplex128 (Value_Complex v)"
| "unbox r_String v = map_sum id VString (Value_String v)"

text \<open>The zero value of a type, as \<^verbatim>\<open>reflect.Zero\<close> and a receive on a closed channel give it.\<close>

fun zero_basic :: "basic \<Rightarrow> gvalue" where
  "zero_basic r_Bool = VBool False"
| "zero_basic r_Int = VInt 0"
| "zero_basic r_Int8 = VInt8 0"
| "zero_basic r_Int16 = VInt16 0"
| "zero_basic r_Int32 = VInt32 0"
| "zero_basic r_Int64 = VInt64 0"
| "zero_basic r_Uint = VUint 0"
| "zero_basic r_Uint8 = VUint8 0"
| "zero_basic r_Uint16 = VUint16 0"
| "zero_basic r_Uint32 = VUint32 0"
| "zero_basic r_Uint64 = VUint64 0"
| "zero_basic r_Uintptr = VUintptr 0"
| "zero_basic r_Float32 = VFloat32 0"
| "zero_basic r_Float64 = VFloat64 0"
| "zero_basic r_Complex64 = VComplex64 0"
| "zero_basic r_Complex128 = VComplex128 0"
| "zero_basic r_String = VString []"

fun zero_kind :: "kind \<Rightarrow> gvalue" where
  "zero_kind (Basic b) = zero_basic b"
| "zero_kind r_Chan = VChan None"
| "zero_kind (Other k) = VOther 0"


text \<open>\<^verbatim>\<open>base.True\<close> and \<^verbatim>\<open>base.False\<close>: the two boxed booleans.\<close>

definition base_True :: rvalue where
  "base_True = RValue (BasicT r_Bool) (VBool True)"

definition base_False :: rvalue where
  "base_False = RValue (BasicT r_Bool) (VBool False)"

section \<open>Environments, the channel store and closures\<close>

text \<open>
  Modelled from the spec: the \<^verbatim>\<open>Env\<close> struct is declared outside \<^verbatim>\<open>channel.go\<close>. An
  Environment owns variable slots and, for the executing function, the flat instruction
  sequence \<^verbatim>\<open>Code\<close> and the instruction pointer \<^verbatim>\<open>IP\<close>, a Go \<^verbatim>\<open>int\<close> (64 bits). The
  type \<open>'c\<close> is the type of the cells of \<^verbatim>\<open>Code\<close>.
\<close>

record 'c Env =
  IP :: "64 word"
  Code :: "'c list"
  Vals :: "rvalue list"

text \<open>
  A channel object of the Go runtime, as one logical thread sees it: the queued
  elements, the capacity and the closed flag. The store maps an address to the channel
  object it holds.
\<close>

record hchan =
  buf :: "gvalue list"
  dataqsiz :: nat
  is_closed :: bool

type_synonym heap = "nat \<Rightarrow> hchan"

text \<open>
  The outcome of running a closure: it returns, it blocks the logical thread (what
  happens once another thread wakes it is outside this model), or it panics.
\<close>

datatype 'a res = Ok 'a | Blocked | Panic fault

text \<open>
  A compiled expression closure is given the Environment to read; it may act on
  channels, and may block or panic. Writes of an operand to the variable slots of the
  Environment (a call of a function literal that assigns a captured variable) are not
  modelled.
\<close>

type_synonym ('c, 'a) efun = "'c Env \<Rightarrow> heap \<Rightarrow> ('a \<times> heap) res"

definition thenR ::
  "(heap \<Rightarrow> ('a \<times> heap) res) \<Rightarrow> ('a \<Rightarrow> heap \<Rightarrow> ('b \<times> heap) res) \<Rightarrow> heap \<Rightarrow> ('b \<times> heap) res"
where
  "thenR m k h = (case m h of Ok (x, h') \<Rightarrow> k x h' | Blocked \<Rightarrow> Blocked | Panic f \<Rightarrow> Panic f)"


definition ret :: "'a \<Rightarrow> heap \<Rightarrow> ('a \<times> heap) res" where
  "ret x h = Ok (x, h)"

text \<open>
  The dynamic type of \<^verbatim>\<open>Expr.Fun\<close>, as the type switches of \<^verbatim>\<open>channel.go\<close> tell it apart:
  \<^verbatim>\<open>func(*Env) (r.Value, []r.Value)\<close>, \<^verbatim>\<open>func(*Env) r.Value\<close>, or \<^verbatim>\<open>func(*Env) T\<close> for a
  scalar Go type \<^verbatim>\<open>T\<close>.
\<close>

datatype 'c Fun =
    XV "('c, rvalue \<times> rvalue list) efun"
  | X1 "('c, rvalue) efun"
  | FB basic "('c, gvalue) efun"

text \<open>
  Modelled from the spec: the \<^verbatim>\<open>Expr\<close> struct and its constructors \<^verbatim>\<open>exprFun\<close> and
  \<^verbatim>\<open>exprXV\<close> are declared outside \<^verbatim>\<open>channel.go\<close>. A compiled expression has a static
  Type (absent for an expression without value), the Types of its multi-value form, the
  folded value when it is a compile-time constant, and its callable.
\<close>

record 'f Expr =
  Type :: "xtype option"
  Types :: "xtype list"
  Value :: "rvalue option"
  Fun :: 'f

definition Const :: "'f Expr \<Rightarrow> bool" where
  "Const e = (Value e \<noteq> None)"

definition exprFun :: "xtype \<Rightarrow> 'f \<Rightarrow> 'f Expr" where
  "exprFun t f = \<lparr>Type = Some t, Types = [], Value = None, Fun = f\<rparr>"

definition exprXV :: "xtype list \<Rightarrow> 'f \<Rightarrow> 'f Expr" where
  "exprXV ts f = \<lparr>Type = (case ts of [] \<Rightarrow> None | t # _ \<Rightarrow> Some t), Types = ts, Value = None, Fun = f\<rparr>"

text \<open>
  Modelled from the spec: \<^verbatim>\<open>Expr.AsX1\<close> is declared outside \<^verbatim>\<open>channel.go\<close>. It is the
  single-value view of a compiled expression as a \<^verbatim>\<open>func(*Env) r.Value\<close>: the first
  result of a multi-value callable, the callable itself, or the result of a scalar
  callable boxed at the expression's Type.
\<close>

definition AsX1 :: "'c Fun Expr \<Rightarrow> ('c, rvalue) efun" where
  "AsX1 e = (case Fun e of
       XV x \<Rightarrow> (\<lambda>env. thenR (x env) (\<lambda>(v, vs). ret v))
     | X1 x \<Rightarrow> x
     | FB b x \<Rightarrow> (\<lambda>env. thenR (x env)
         (\<lambda>g. ret (RValue (case Type e of Some t \<Rightarrow> t | None \<Rightarrow> BasicT b) g))))"

section \<open>The native channel primitive and its reflective interface\<close>

text \<open>
  Receive on a channel of the Go runtime: the head of the queue with \<^verbatim>\<open>true\<close>; on an
  empty closed channel the zero value \<open>z\<close> of the element type with \<^verbatim>\<open>false\<close>; otherwise
  the thread blocks. A nil channel blocks forever.
\<close>

definition chanrecv :: "nat option \<Rightarrow> gvalue \<Rightarrow> heap \<Rightarrow> ((gvalue \<times> bool) \<times> heap) res" where
  "chanrecv c z h = (case c of
       None \<Rightarrow> Blocked
     | Some a \<Rightarrow> (case buf (h a) of
           x # xs \<Rightarrow> Ok ((x, True), h(a := (h a)\<lparr>buf := xs\<rparr>))
         | [] \<Rightarrow> if is_closed (h a) then Ok ((z, False), h) else Blocked))"



text \<open>
  \<^verbatim>\<open>reflect.Value.Recv\<close>: panics on a value that is not a channel or is send-only; the
  received value carries the element type of the channel's type.
\<close>

definition Value_Recv :: "rvalue \<Rightarrow> heap \<Rightarrow> ((rvalue \<times> bool) \<times> heap) res" where
  "Value_Recv v h = (case (ChanDir (vType v), Elem (vType v)) of
       (Some d, Some te) \<Rightarrow>
         if dir_bits d AND dir_bits r_RecvDir = 0 then Panic ReflectPanic
         else (case vInterface v of
             VChan c \<Rightarrow> thenR (chanrecv c (zero_kind (Kind te))) (\<lambda>(x, ok). ret (RValue te x, ok)) h
           | _ \<Rightarrow> Panic ReflectPanic)
     | _ \<Rightarrow> Panic ReflectPanic)"



section \<open>Compile errors\<close>

text \<open>
  Modelled from the spec: \<^verbatim>\<open>Comp.Errorf\<close> and \<^verbatim>\<open>Comp.badUnaryExpr\<close> are declared outside
  \<^verbatim>\<open>channel.go\<close>. Both fail the compilation with a \<^verbatim>\<open>CompileError\<close>; the error keeps the
  message text that \<^verbatim>\<open>channel.go\<close> passes, without the rendered arguments. A panic of the
  compiler itself (a nil Type, a \<^verbatim>\<open>reflect\<close> accessor on the wrong kind) is
  \<open>CompilePanic\<close>.
\<close>

datatype cerror = CompileError string | CompilePanic fault

type_synonym ast_expr = string

definition Errorf :: "string \<Rightarrow> cerror" where
  "Errorf format = CompileError format"

definition badUnaryExpr :: "string \<Rightarrow> ast_expr \<Rightarrow> 'f Expr \<Rightarrow> cerror" where
  "badUnaryExpr reason node xe = Errorf reason"

section \<open>Receive: \<^verbatim>\<open>Comp.Recv\<close> and \<^verbatim>\<open>Comp.Recv1\<close>\<close>

text \<open>
  How a receive closure obtains the channel: \<^verbatim>\<open>channel, _ := channelfun(env)\<close> when the
  channel expression is a \<^verbatim>\<open>func(*Env) (r.Value, []r.Value)\<close>, and \<^verbatim>\<open>channelfun(env)\<close> with
  \<^verbatim>\<open>channelfun := xe.AsX1()\<close> otherwise.
\<close>

datatype 'c chanfun =
    ChanXV "('c, rvalue \<times> rvalue list) efun"
  | ChanX1 "('c, rvalue) efun"

fun eval_chan :: "'c chanfun \<Rightarrow> ('c, rvalue) efun" where
  "eval_chan (ChanXV x) env = thenR (x env) (\<lambda>(channel, vs). ret channel)"
| "eval_chan (ChanX1 x) env = x env"

definition chan_of_expr :: "'c Fun Expr \<Rightarrow> 'c chanfun" where
  "chan_of_expr xe = (case Fun xe of XV x \<Rightarrow> ChanXV x | _ \<Rightarrow> ChanX1 (AsX1 xe))"

text \<open>
  The closure literal of \<^verbatim>\<open>Recv\<close> (lines 54--64 and 67--76): receive through
  \<^verbatim>\<open>reflect.Value.Recv\<close>, box the flag as \<^verbatim>\<open>base.True\<close> or \<^verbatim>\<open>base.False\<close>, return
  \<^verbatim>\<open>retv, []r.Value{retv, okv}\<close>.
\<close>

datatype 'c recv_closure = Recv_closure "'c chanfun"

fun Recv_fun :: "'c recv_closure \<Rightarrow> ('c, rvalue \<times> rvalue list) efun" where
  "Recv_fun (Recv_closure cf) env =
     thenR (eval_chan cf env) (\<lambda>channel.
     thenR (Value_Recv channel) (\<lambda>(retv, ok).
     ret (retv, [retv, if ok then base_True else base_False])))"

definition Recv :: "ast_expr \<Rightarrow> 'c Fun Expr \<Rightarrow> cerror + 'c recv_closure Expr" where
  "Recv node xe = (case Type xe of
       None \<Rightarrow> Inl (CompilePanic NilDereference)
     | Some t \<Rightarrow>
         if Kind t \<noteq> r_Chan then Inl (badUnaryExpr ''expecting channel, found'' node xe)
         else (case (ChanDir t, Elem t) of
             (Some dir, Some telem) \<Rightarrow>
               if dir_bits dir AND dir_bits r_RecvDir = 0
               then Inl (badUnaryExpr ''cannot receive from send-only channel'' node xe)
               else Inr (exprXV [telem, xr_TypeOfBool] (Recv_closure (chan_of_expr xe)))
           | _ \<Rightarrow> Inl (CompilePanic ReflectPanic)))"

text \<open>
  The closure literals of \<^verbatim>\<open>Recv1\<close>, one constructor for each shape:
  \<^item> \<open>Recv1_reflect b\<close>: \<^verbatim>\<open>retv, _ := channel.Recv(); return T(retv.Get())\<close>, a
    \<^verbatim>\<open>func(*Env) T\<close> (lines 97--198, and the first arm of each case of lines 211--516);
  \<^item> \<open>Recv1_native d b\<close>: \<^verbatim>\<open>channel := channelfun(env).Interface().(<-chan T)\<close> for
    \<open>d = r_RecvDir\<close>, \<^verbatim>\<open>.(chan T)\<close> for \<open>d = r_BothDir\<close>, then \<^verbatim>\<open>return <-channel\<close>;
  \<^item> \<open>Recv1_generic\<close>: \<^verbatim>\<open>retv, _ := channel.Recv(); return retv\<close>, a \<^verbatim>\<open>func(*Env) r.Value\<close>.
\<close>

datatype 'c recv1_closure =
    Recv1_reflect basic "'c chanfun"
  | Recv1_native chan_dir basic "('c, rvalue) efun"
  | Recv1_generic "'c chanfun"


definition Recv1 :: "ast_expr \<Rightarrow> 'c Fun Expr \<Rightarrow> cerror + 'c recv1_closure Expr" where
  "Recv1 node xe = (case Type xe of
       None \<Rightarrow> Inl (CompilePanic NilDereference)
     | Some t \<Rightarrow>
         if Kind t \<noteq> r_Chan then Inl (badUnaryExpr ''expecting channel, found'' node xe)
         else (case (ChanDir t, Elem t) of
             (Some dir, Some telem) \<Rightarrow>
               if dir_bits dir AND dir_bits r_RecvDir = 0
               then Inl (badUnaryExpr ''cannot receive from send-only channel'' node xe)
               else Inr (exprFun telem
                 (case Fun xe of
                    XV x \<Rightarrow>
                      (case Kind telem of
                         Basic b \<Rightarrow> Recv1_reflect b (ChanXV x)
                       | _ \<Rightarrow> Recv1_generic (ChanXV x))
                  | _ \<Rightarrow>
                      (let recvonly = (dir = r_RecvDir); channelfun = AsX1 xe in
                       case Kind telem of
                         Basic b \<Rightarrow>
                           if telem \<noteq> BasicType b then Recv1_reflect b (ChanX1 channelfun)
                           else if recvonly then Recv1_native r_RecvDir b channelfun
                           else Recv1_native r_BothDir b channelfun
                       | _ \<Rightarrow> Recv1_generic (ChanX1 channelfun))))
           | _ \<Rightarrow> Inl (CompilePanic ReflectPanic)))"

section \<open>Send: \<^verbatim>\<open>Comp.Send\<close>\<close>

text \<open>
  The statement closures of \<^verbatim>\<open>Send\<close>, one constructor for each shape; the arguments are
  the variables the closure captures.
  \<^item> \<open>Send_const_native d b channelfun value\<close> (lines 552--862): assert \<^verbatim>\<open>chan<- T\<close>
    (\<open>d = r_SendDir\<close>) or \<^verbatim>\<open>chan T\<close> (\<open>d = r_BothDir\<close>), then \<^verbatim>\<open>channel <- value\<close>;
  \<^item> \<open>Send_const_generic channelfun v\<close> (lines 865--872): \<^verbatim>\<open>channel.Send(v)\<close>;
  \<^item> \<open>Send_native d b channelfun exprfun\<close> (lines 876--1181): the same assertion, then
    \<^verbatim>\<open>channel <- exprfun(env)\<close>;
  \<^item> \<open>Send_generic channelfun exprfun rtelem\<close> (lines 1184--1198): evaluate both, convert
    the value to \<^verbatim>\<open>rtelem\<close> when its type differs, \<^verbatim>\<open>channel.Send(value)\<close>;
  \<^item> \<open>Stmt_other\<close>: a statement compiled elsewhere.
  Each closure of \<^verbatim>\<open>Send\<close> ends with \<^verbatim>\<open>env.IP++; return env.Code[env.IP], env\<close>.
\<close>

datatype 'c Stmt =
    Send_const_native chan_dir basic "('c, rvalue) efun" gvalue
  | Send_const_generic "('c, rvalue) efun" rvalue
  | Send_native chan_dir basic "('c, rvalue) efun" "('c, gvalue) efun"
  | Send_generic "('c, rvalue) efun" "('c, rvalue) efun" xtype
  | Stmt_other "'c Env \<Rightarrow> heap \<Rightarrow> (('c \<times> 'c Env) \<times> heap) res"



text \<open>
  Modelled from the spec: the compiler state \<^verbatim>\<open>Comp\<close> and \<^verbatim>\<open>Code.Append\<close> are declared
  outside \<^verbatim>\<open>channel.go\<close>. \<^verbatim>\<open>c.Code.Append(stmt)\<close> appends one instruction to the flat
  instruction sequence of the function being compiled.
\<close>

record 'c Comp =
  Code_List :: "'c Stmt list"

definition Append :: "'c Comp \<Rightarrow> 'c Stmt \<Rightarrow> 'c Comp" where
  "Append c stmt = c\<lparr>Code_List := Code_List c @ [stmt]\<rparr>"

text \<open>
  What \<^verbatim>\<open>Send\<close> calls and \<^verbatim>\<open>channel.go\<close> does not define, taken as parameters:
  \<^verbatim>\<open>c.Expr1\<close> compiles a sub-expression (or fails), \<^verbatim>\<open>expr.ConstTo(t)\<close> converts a
  constant expression to a type (or fails), \<^verbatim>\<open>AssignableTo\<close> is the assignability
  check of the Type capability.
\<close>

record 'c collab =
  Expr1 :: "ast_expr \<Rightarrow> cerror + 'c Fun Expr"
  ConstTo :: "'c Fun Expr \<Rightarrow> xtype \<Rightarrow> cerror + 'c Fun Expr"
  AssignableTo :: "xtype \<Rightarrow> xtype \<Rightarrow> bool"

datatype SendStmt = SendStmt (SendStmt_Chan: ast_expr) (SendStmt_Value: ast_expr)

text \<open>
  Lines 549--873, the constant operand: \<^verbatim>\<open>v := r.ValueOf(expr.Value)\<close>, then
  \<^verbatim>\<open>switch telem\<close> over the predefined types, each arm taking \<^verbatim>\<open>value := T(v.Get())\<close> at
  compile time; \<^verbatim>\<open>stmt == nil\<close> after the switch selects the generic closure.
\<close>

definition Send_const :: "('c, rvalue) efun \<Rightarrow> bool \<Rightarrow> xtype \<Rightarrow> 'c Fun Expr \<Rightarrow> cerror + 'c Stmt" where
  "Send_const channelfun sendonly telem expr = (case Value expr of
       None \<Rightarrow> Inl (CompilePanic ReflectPanic)
     | Some v \<Rightarrow> (case telem of
           BasicT b \<Rightarrow> (case unbox b v of
               Inl f \<Rightarrow> Inl (CompilePanic f)
             | Inr value \<Rightarrow>
                 if sendonly then Inr (Send_const_native r_SendDir b channelfun value)
                 else Inr (Send_const_native r_BothDir b channelfun value))
         | _ \<Rightarrow> Inr (Send_const_generic channelfun v)))"

text \<open>
  Lines 874--1199, the operand evaluated at run time: \<^verbatim>\<open>switch telem\<close> over the
  predefined types, each arm breaking out unless \<^verbatim>\<open>expr.Fun\<close> is a \<^verbatim>\<open>func(*Env) T\<close> of that
  very type; \<^verbatim>\<open>stmt == nil\<close> after the switch selects the generic closure.
\<close>

definition Send_expr :: "('c, rvalue) efun \<Rightarrow> bool \<Rightarrow> xtype \<Rightarrow> 'c Fun Expr \<Rightarrow> 'c Stmt" where
  "Send_expr channelfun sendonly telem expr =
     (let stmt = (case telem of
            BasicT b \<Rightarrow> (case Fun expr of
                FB b' exprfun \<Rightarrow>
                  if b' \<noteq> b then None
                  else if sendonly then Some (Send_native r_SendDir b channelfun exprfun)
                  else Some (Send_native r_BothDir b channelfun exprfun)
              | _ \<Rightarrow> None)
          | _ \<Rightarrow> None)
      in case stmt of
           Some s \<Rightarrow> s
         | None \<Rightarrow> Send_generic channelfun (AsX1 expr) telem)"

text \<open>
  \<^verbatim>\<open>Send\<close> returns nothing and mutates the compiler; the model returns the error, if any,
  and the compiler state after the call.
\<close>

definition Send :: "'c collab \<Rightarrow> SendStmt \<Rightarrow> 'c Comp \<Rightarrow> cerror option \<times> 'c Comp" where
  "Send U node c = (case Expr1 U (SendStmt_Chan node) of
       Inl e \<Rightarrow> (Some e, c)
     | Inr channel \<Rightarrow> (case Type channel of
         None \<Rightarrow> (Some (CompilePanic NilDereference), c)
       | Some t \<Rightarrow>
           if Kind t \<noteq> r_Chan
           then (Some (Errorf ''cannot send to non-channel type %v: %v''), c)
           else (case (ChanDir t, Elem t) of
               (Some dir, Some telem) \<Rightarrow>
                 if dir_bits dir AND dir_bits r_SendDir = 0
                 then (Some (Errorf ''cannot send to receive-only channel type %v: %v''), c)
                 else (case Expr1 U (SendStmt_Value node) of
                     Inl e \<Rightarrow> (Some e, c)
                   | Inr expr0 \<Rightarrow>
                       (case (if Const expr0 then ConstTo U expr0 telem
                              else (case Type expr0 of
                                  None \<Rightarrow> Inl (Errorf ''cannot use %v <%v> as type %v in send'')
                                | Some ty \<Rightarrow>
                                    if \<not> AssignableTo U ty telem
                                    then Inl (Errorf ''cannot use %v <%v> as type %v in send'')
                                    else Inr expr0)) of
                          Inl e \<Rightarrow> (Some e, c)
                        | Inr expr \<Rightarrow>
                            (let channelfun = AsX1 channel; sendonly = (dir = r_SendDir) in
                             if Const expr
                             then (case Send_const channelfun sendonly telem expr of
                                 Inl e \<Rightarrow> (Some e, c)
                               | Inr stmt \<Rightarrow> (None, Append c stmt))
                             else (None, Append c (Send_expr channelfun sendonly telem expr)))))
             | _ \<Rightarrow> (Some (CompilePanic ReflectPanic), c))))"

text \<open>
  The two tiers of the dispatch policy: a native closure asserts the static channel type
  and uses the channel operators of the language; a reflective closure goes through
  \<^verbatim>\<open>reflect.Value.Recv\<close> or \<^verbatim>\<open>reflect.Value.Send\<close>.
\<close>

datatype tier = Native | Reflective

fun Recv_tier :: "'c recv_closure \<Rightarrow> tier" where
  "Recv_tier (Recv_closure cf) = Reflective"

fun Recv1_tier :: "'c recv1_closure \<Rightarrow> tier" where
  "Recv1_tier (Recv1_reflect b cf) = Reflective"
| "Recv1_tier (Recv1_native d b channelfun) = Native"
| "Recv1_tier (Recv1_generic cf) = Reflective"

fun Send_tier :: "'c Stmt \<Rightarrow> tier option" where
  "Send_tier (Send_const_native d b channelfun value) = Some Native"
| "Send_tier (Send_const_generic channelfun v) = Some Reflective"
| "Send_tier (Send_native d b channelfun exprfun) = Some Native"
| "Send_tier (Send_generic channelfun exprfun rtelem) = Some Reflective"
| "Send_tier (Stmt_other f) = None"


section \<open>Example programs\<close>

text \<open>
  A small compilation unit used to run the compiler and the compiled closures on concrete
  inputs. The identifiers \<^verbatim>\<open>ch\<close> and \<^verbatim>\<open>ich\<close> are variables holding the channel at address 0,
  the first at a type that the unit is given, the second at \<^verbatim>\<open>chan int\<close>; \<^verbatim>\<open>f()\<close> is a call
  compiled to a \<^verbatim>\<open>func(*Env) (r.Value, []r.Value)\<close> that returns the same channel; \<^verbatim>\<open>42\<close>
  is an integer literal; \<^verbatim>\<open>x\<close> and \<^verbatim>\<open>ix\<close> are variables holding 7, compiled to a
  \<^verbatim>\<open>func(*Env) int\<close>, the first at a type that the unit is given, the second at \<^verbatim>\<open>int\<close>;
  \<^verbatim>\<open>y\<close> is an expression of the given type compiled to a \<^verbatim>\<open>func(*Env) r.Value\<close>.
\<close>

definition ex_chan :: "xtype \<Rightarrow> nat Fun Expr" where
  "ex_chan t = \<lparr>Type = Some t, Types = [], Value = None,
     Fun = X1 (\<lambda>env. ret (RValue t (VChan (Some 0))))\<rparr>"

definition ex_call_fun :: "xtype \<Rightarrow> (nat, rvalue \<times> rvalue list) efun" where
  "ex_call_fun t = (\<lambda>env. ret (RValue t (VChan (Some 0)), [RValue t (VChan (Some 0))]))"

definition ex_call :: "xtype \<Rightarrow> nat Fun Expr" where
  "ex_call t = \<lparr>Type = Some t, Types = [t], Value = None, Fun = XV (ex_call_fun t)\<rparr>"

definition ex_lit :: "nat Fun Expr" where
  "ex_lit = \<lparr>Type = Some (BasicT r_Int), Types = [],
     Value = Some (RValue (BasicT r_Int) (VInt 42)),
     Fun = X1 (\<lambda>env. ret (RValue (BasicT r_Int) (VInt 42)))\<rparr>"

definition ex_seven :: "(nat, gvalue) efun" where
  "ex_seven = (\<lambda>env. ret (VInt 7))"

definition ex_var :: "xtype \<Rightarrow> nat Fun Expr" where
  "ex_var t = \<lparr>Type = Some t, Types = [], Value = None, Fun = FB r_Int ex_seven\<rparr>"

definition ex_boxed :: "xtype \<Rightarrow> nat Fun Expr" where
  "ex_boxed t = \<lparr>Type = Some t, Types = [], Value = None,
     Fun = X1 (\<lambda>env. ret (RValue t (VInt 7)))\<rparr>"

definition ex_collab :: "xtype \<Rightarrow> xtype \<Rightarrow> nat collab" where
  "ex_collab tchan tvar = \<lparr>
     Expr1 = (\<lambda>n. if n = ''ch'' then Inr (ex_chan tchan)
                  else if n = ''ich'' then Inr (ex_chan (ChanT r_BothDir (BasicT r_Int)))
                  else if n = ''f()'' then Inr (ex_call tchan)
                  else if n = ''42'' then Inr ex_lit
                  else if n = ''x'' then Inr (ex_var tvar)
                  else if n = ''ix'' then Inr (ex_var (BasicT r_Int))
                  else if n = ''y'' then Inr (ex_boxed tvar)
                  else Inl (CompileError ''undefined identifier'')),
     ConstTo = (\<lambda>e t. case Value e of
                  None \<Rightarrow> Inl (CompileError ''not a constant'')
                | Some v \<Rightarrow> Inr (e\<lparr>Type := Some t, Value := Some (RValue t (vInterface v))\<rparr>)),
     AssignableTo = (\<lambda>a b. a = b)\<rparr>"

definition ex_comp :: "nat Comp" where
  "ex_comp = \<lparr>Code_List = []\<rparr>"

definition ex_env :: "nat Env" where
  "ex_env = \<lparr>IP = 0, Code = [100, 101, 102], Vals = []\<rparr>"

definition ex_heap :: "gvalue list \<Rightarrow> bool \<Rightarrow> heap" where
  "ex_heap q cl = (\<lambda>a. \<lparr>buf = q, dataqsiz = 2, is_closed = cl\<rparr>)"

text \<open>The user-defined type \<^verbatim>\<open>type MyInt int\<close>.\<close>

definition ex_MyInt :: xtype where
  "ex_MyInt = NamedT ''MyInt'' (BasicT r_Int)"

section \<open>Basic facts\<close>

lemma ChanDir_Some_Kind: "ChanDir t = Some d \<Longrightarrow> Kind t = r_Chan"
  by (induction t) auto

lemma ChanDir_Some_Elem: "ChanDir t = Some d \<Longrightarrow> \<exists>e. Elem t = Some e"
  by (induction t) auto

lemma Kind_Chan_parts: "Kind t = r_Chan \<Longrightarrow> \<exists>d e. ChanDir t = Some d \<and> Elem t = Some e"
  by (induction t) auto

lemma thenR_Ok: "thenR m k h = Ok r \<longleftrightarrow> (\<exists>x h1. m h = Ok (x, h1) \<and> k x h1 = Ok r)"
  by (auto simp add: thenR_def split: res.splits)



lemma ret_Ok: "ret x h = Ok (y, h') \<longleftrightarrow> y = x \<and> h' = h"
  by (auto simp add: ret_def)





section \<open>Direction errors\<close>

text \<open>
  Claim C1. Whatever the element type and the channel expression: on a channel type
  whose direction has no receive permission, \<^verbatim>\<open>Recv\<close> and \<^verbatim>\<open>Recv1\<close> fail with the
  CompileError \<^verbatim>\<open>cannot receive from send-only channel\<close> and return no expression; on a
  channel type whose direction has no send permission, \<^verbatim>\<open>Send\<close> fails with the
  CompileError \<^verbatim>\<open>cannot send to receive-only channel type\<close> and leaves the compiler, and so
  its instruction sequence, as it was.
\<close>

theorem direction_errors:
  "(Type xe = Some t \<and> ChanDir t = Some d \<and> dir_bits d AND dir_bits r_RecvDir = 0 \<longrightarrow>
      Recv node xe = Inl (CompileError ''cannot receive from send-only channel'') \<and>
      Recv1 node xe = Inl (CompileError ''cannot receive from send-only channel''))
   \<and> (Expr1 U (SendStmt_Chan snode) = Inr channel \<and> Type channel = Some t' \<and>
        ChanDir t' = Some d' \<and> dir_bits d' AND dir_bits r_SendDir = 0 \<longrightarrow>
      Send U snode c = (Some (CompileError ''cannot send to receive-only channel type %v: %v''), c))"
proof (intro conjI impI)
  assume a: "Type xe = Some t \<and> ChanDir t = Some d \<and> dir_bits d AND dir_bits r_RecvDir = 0"
  then obtain e where e: "Elem t = Some e" using ChanDir_Some_Elem by blast
  from a have k: "Kind t = r_Chan" using ChanDir_Some_Kind by blast
  from a e k show "Recv node xe = Inl (CompileError ''cannot receive from send-only channel'')"
    by (simp add: Recv_def badUnaryExpr_def Errorf_def)
  from a e k show "Recv1 node xe = Inl (CompileError ''cannot receive from send-only channel'')"
    by (simp add: Recv1_def badUnaryExpr_def Errorf_def)
next
  assume a: "Expr1 U (SendStmt_Chan snode) = Inr channel \<and> Type channel = Some t' \<and>
        ChanDir t' = Some d' \<and> dir_bits d' AND dir_bits r_SendDir = 0"
  then obtain e where e: "Elem t' = Some e" using ChanDir_Some_Elem by blast
  from a have k: "Kind t' = r_Chan" using ChanDir_Some_Kind by blast
  from a e k
  show "Send U snode c = (Some (CompileError ''cannot send to receive-only channel type %v: %v''), c)"
    by (simp add: Send_def Errorf_def)
qed

theorem direction_errors_witness:
  "Type (ex_chan (ChanT r_SendDir (BasicT r_Int))) = Some (ChanT r_SendDir (BasicT r_Int))
   \<and> ChanDir (ChanT r_SendDir (BasicT r_Int)) = Some r_SendDir
   \<and> dir_bits r_SendDir AND dir_bits r_RecvDir = 0
   \<and> Recv ''<-ch'' (ex_chan (ChanT r_SendDir (BasicT r_Int))) =
       Inl (CompileError ''cannot receive from send-only channel'')
   \<and> Recv1 ''<-ch'' (ex_chan (ChanT r_SendDir (BasicT r_Int))) =
       Inl (CompileError ''cannot receive from send-only channel'')
   \<and> Expr1 (ex_collab (ChanT r_RecvDir (BasicT r_Int)) (BasicT r_Int)) ''ch'' =
       Inr (ex_chan (ChanT r_RecvDir (BasicT r_Int)))
   \<and> dir_bits r_RecvDir AND dir_bits r_SendDir = 0
   \<and> Send (ex_collab (ChanT r_RecvDir (BasicT r_Int)) (BasicT r_Int)) (SendStmt ''ch'' ''42'') ex_comp =
       (Some (CompileError ''cannot send to receive-only channel type %v: %v''), ex_comp)"
proof -
  have r: "Type (ex_chan (ChanT r_SendDir (BasicT r_Int))) = Some (ChanT r_SendDir (BasicT r_Int))
      \<and> ChanDir (ChanT r_SendDir (BasicT r_Int)) = Some r_SendDir
      \<and> dir_bits r_SendDir AND dir_bits r_RecvDir = 0"
    by (simp add: ex_chan_def)
  have s: "Expr1 (ex_collab (ChanT r_RecvDir (BasicT r_Int)) (BasicT r_Int))
        (SendStmt_Chan (SendStmt ''ch'' ''42'')) = Inr (ex_chan (ChanT r_RecvDir (BasicT r_Int)))
      \<and> Type (ex_chan (ChanT r_RecvDir (BasicT r_Int))) = Some (ChanT r_RecvDir (BasicT r_Int))
      \<and> ChanDir (ChanT r_RecvDir (BasicT r_Int)) = Some r_RecvDir
      \<and> dir_bits r_RecvDir AND dir_bits r_SendDir = 0"
    by (simp add: ex_chan_def ex_collab_def)
  from r s direction_errors
    [of "ex_chan (ChanT r_SendDir (BasicT r_Int))" "ChanT r_SendDir (BasicT r_Int)" r_SendDir
        "''<-ch''" "ex_collab (ChanT r_RecvDir (BasicT r_Int)) (BasicT r_Int)"
        "SendStmt ''ch'' ''42''" "ex_chan (ChanT r_RecvDir (BasicT r_Int))"
        "ChanT r_RecvDir (BasicT r_Int)" r_RecvDir ex_comp]
  show ?thesis by simp
qed

section \<open>The operand of a send\<close>

text \<open>
  Claim C4. On a channel with send permission: a constant operand is converted to the
  element type at compile time, that is, \<^verbatim>\<open>Send\<close> goes on with the result of
  \<^verbatim>\<open>ConstTo\<close> at the element type and fails, appending nothing, when the conversion fails;
  an operand that is not a constant and whose Type is missing or not assignable to the
  element type fails with the CompileError \<^verbatim>\<open>cannot use ... as type ... in send\<close> and
  appends nothing.
\<close>

theorem send_operand_check:
  assumes "Expr1 U (SendStmt_Chan node) = Inr channel" and "Type channel = Some t"
    and "ChanDir t = Some dir" and "Elem t = Some telem"
    and "dir_bits dir AND dir_bits r_SendDir \<noteq> 0"
    and "Expr1 U (SendStmt_Value node) = Inr expr"
  shows "(Const expr \<longrightarrow>
            Send U node c = (case ConstTo U expr telem of
                Inl e \<Rightarrow> (Some e, c)
              | Inr expr' \<Rightarrow>
                  if Const expr'
                  then (case Send_const (AsX1 channel) (dir = r_SendDir) telem expr' of
                      Inl e \<Rightarrow> (Some e, c)
                    | Inr stmt \<Rightarrow> (None, Append c stmt))
                  else (None, Append c (Send_expr (AsX1 channel) (dir = r_SendDir) telem expr'))))
       \<and> (\<not> Const expr \<and>
            (Type expr = None \<or> (\<exists>ty. Type expr = Some ty \<and> \<not> AssignableTo U ty telem)) \<longrightarrow>
            Send U node c = (Some (CompileError ''cannot use %v <%v> as type %v in send''), c))"
proof -
  have k: "Kind t = r_Chan" using assms(3) by (rule ChanDir_Some_Kind)
  have d: "dir \<noteq> r_RecvDir" using assms(5) by (cases dir) simp_all
  show ?thesis
  proof (intro conjI impI)
    assume "Const expr"
    then show "Send U node c = (case ConstTo U expr telem of
                Inl e \<Rightarrow> (Some e, c)
              | Inr expr' \<Rightarrow>
                  if Const expr'
                  then (case Send_const (AsX1 channel) (dir = r_SendDir) telem expr' of
                      Inl e \<Rightarrow> (Some e, c)
                    | Inr stmt \<Rightarrow> (None, Append c stmt))
                  else (None, Append c (Send_expr (AsX1 channel) (dir = r_SendDir) telem expr')))"
      using assms(1-4,6) k d
      by (cases dir) (simp_all add: Send_def Let_def split: sum.splits)
  next
    assume "\<not> Const expr \<and>
      (Type expr = None \<or> (\<exists>ty. Type expr = Some ty \<and> \<not> AssignableTo U ty telem))"
    then show "Send U node c = (Some (CompileError ''cannot use %v <%v> as type %v in send''), c)"
      using assms(1-4,6) k d
      by (cases dir) (auto simp add: Send_def Let_def Errorf_def)
  qed
qed

theorem send_operand_check_witness:
  "Send (ex_collab (ChanT r_BothDir (BasicT r_Int8)) (BasicT r_Int)) (SendStmt ''ch'' ''42'') ex_comp =
     (None, Append ex_comp (Send_const_native r_BothDir r_Int8
        (AsX1 (ex_chan (ChanT r_BothDir (BasicT r_Int8)))) (VInt8 42)))
   \<and> Send (ex_collab (ChanT r_BothDir (BasicT r_Int8)) (BasicT r_Int)) (SendStmt ''ch'' ''x'') ex_comp =
     (Some (CompileError ''cannot use %v <%v> as type %v in send''), ex_comp)"
proof -
  let ?U = "ex_collab (ChanT r_BothDir (BasicT r_Int8)) (BasicT r_Int)"
  let ?ch = "ex_chan (ChanT r_BothDir (BasicT r_Int8))"
  have c1: "Expr1 ?U (SendStmt_Chan (SendStmt ''ch'' ''42'')) = Inr ?ch"
    and c2: "Expr1 ?U (SendStmt_Chan (SendStmt ''ch'' ''x'')) = Inr ?ch"
    and t: "Type ?ch = Some (ChanT r_BothDir (BasicT r_Int8))"
    and d: "ChanDir (ChanT r_BothDir (BasicT r_Int8)) = Some r_BothDir"
    and e: "Elem (ChanT r_BothDir (BasicT r_Int8)) = Some (BasicT r_Int8)"
    and p: "dir_bits r_BothDir AND dir_bits r_SendDir \<noteq> 0"
    and v1: "Expr1 ?U (SendStmt_Value (SendStmt ''ch'' ''42'')) = Inr ex_lit"
    and v2: "Expr1 ?U (SendStmt_Value (SendStmt ''ch'' ''x'')) = Inr (ex_var (BasicT r_Int))"
    by (simp_all add: ex_collab_def ex_chan_def)
  have k1: "Const ex_lit"
    by (simp add: Const_def ex_lit_def)
  have k2: "\<not> Const (ex_var (BasicT r_Int)) \<and>
      (Type (ex_var (BasicT r_Int)) = None \<or>
       (\<exists>ty. Type (ex_var (BasicT r_Int)) = Some ty \<and> \<not> AssignableTo ?U ty (BasicT r_Int8)))"
    by (simp add: Const_def ex_var_def ex_collab_def)
  from send_operand_check [OF c1 t d e p v1, of ex_comp] k1
  have "Send ?U (SendStmt ''ch'' ''42'') ex_comp =
     (None, Append ex_comp (Send_const_native r_BothDir r_Int8 (AsX1 ?ch) (VInt8 42)))"
    by (simp add: ex_collab_def ex_lit_def Const_def Send_const_def)
  moreover from send_operand_check [OF c2 t d e p v2, of ex_comp] k2
  have "Send ?U (SendStmt ''ch'' ''x'') ex_comp =
     (Some (CompileError ''cannot use %v <%v> as type %v in send''), ex_comp)"
    by blast
  ultimately show ?thesis by simp
qed

section \<open>Result types of a receive\<close>

text \<open>
  Claim C6. When \<^verbatim>\<open>Recv1\<close> succeeds, the static Type of its result is the element type of
  the channel's type; when \<^verbatim>\<open>Recv\<close> succeeds, the Types of its result are the element type
  followed by the boolean type (and its Type is the element type).
\<close>

theorem recv_result_types:
  "(Recv1 node xe = Inr e1 \<longrightarrow>
      (\<exists>t telem. Type xe = Some t \<and> Kind t = r_Chan \<and> Elem t = Some telem \<and>
         Type e1 = Some telem))
   \<and> (Recv node xe = Inr e2 \<longrightarrow>
      (\<exists>t telem. Type xe = Some t \<and> Kind t = r_Chan \<and> Elem t = Some telem \<and>
         Type e2 = Some telem \<and> Types e2 = [telem, xr_TypeOfBool]))"
  by (auto simp add: Recv_def Recv1_def exprFun_def exprXV_def split: option.splits if_splits)

theorem recv_result_types_witness:
  "Recv1 ''<-ch'' (ex_chan (ChanT r_BothDir ex_MyInt)) =
       Inr (exprFun ex_MyInt (Recv1_reflect r_Int
         (ChanX1 (AsX1 (ex_chan (ChanT r_BothDir ex_MyInt))))))
   \<and> Type (exprFun ex_MyInt (Recv1_reflect r_Int
         (ChanX1 (AsX1 (ex_chan (ChanT r_BothDir ex_MyInt)))))) = Some ex_MyInt
   \<and> Recv ''<-ch'' (ex_chan (ChanT r_BothDir ex_MyInt)) =
       Inr (exprXV [ex_MyInt, xr_TypeOfBool]
         (Recv_closure (chan_of_expr (ex_chan (ChanT r_BothDir ex_MyInt)))))
   \<and> Types (exprXV [ex_MyInt, xr_TypeOfBool]
         (Recv_closure (chan_of_expr (ex_chan (ChanT r_BothDir ex_MyInt)))))
       = [ex_MyInt, xr_TypeOfBool]"
proof -
  let ?xe = "ex_chan (ChanT r_BothDir ex_MyInt)"
  let ?e1 = "exprFun ex_MyInt (Recv1_reflect r_Int (ChanX1 (AsX1 ?xe)))"
  let ?e2 = "exprXV [ex_MyInt, xr_TypeOfBool] (Recv_closure (chan_of_expr ?xe))"
  have a: "Recv1 ''<-ch'' ?xe = Inr ?e1"
    by (simp add: Recv1_def ex_chan_def ex_MyInt_def BasicType_def)
  have b: "Recv ''<-ch'' ?xe = Inr ?e2"
    by (simp add: Recv_def ex_chan_def)
  have e: "Elem (ChanT r_BothDir ex_MyInt) = Some ex_MyInt" and t: "Type ?xe = Some (ChanT r_BothDir ex_MyInt)"
    by (simp_all add: ex_chan_def)
  from recv_result_types [of "''<-ch''" ?xe ?e1 ?e2] a b e t
  have "Type ?e1 = Some ex_MyInt \<and> Types ?e2 = [ex_MyInt, xr_TypeOfBool]"
    by auto
  with a b show ?thesis by simp
qed

section \<open>Appending the instruction\<close>


text \<open>
  Claim C10. \<^verbatim>\<open>Send\<close> either fails and leaves the compiler, and so the instruction
  sequence, exactly as it was, or succeeds and the instruction sequence is the old one
  followed by exactly one instruction. A channel expression that is not of channel kind
  is among the failures (a receive-only direction and an operand that is not assignable
  are the subject of C1 and C4).
\<close>

theorem send_appends_atomically:
  "(case fst (Send U node c) of
      Some e \<Rightarrow> snd (Send U node c) = c
    | None \<Rightarrow> (\<exists>stmt. Code_List (snd (Send U node c)) = Code_List c @ [stmt]))
   \<and> (Expr1 U (SendStmt_Chan node) = Inr channel \<and> Type channel = Some t \<and> Kind t \<noteq> r_Chan \<longrightarrow>
        Send U node c = (Some (CompileError ''cannot send to non-channel type %v: %v''), c))"
proof (intro conjI impI)
  show "case fst (Send U node c) of
      Some e \<Rightarrow> snd (Send U node c) = c
    | None \<Rightarrow> (\<exists>stmt. Code_List (snd (Send U node c)) = Code_List c @ [stmt])"
    by (auto simp add: Send_def Append_def Let_def split: sum.splits option.splits prod.splits)
next
  assume "Expr1 U (SendStmt_Chan node) = Inr channel \<and> Type channel = Some t \<and> Kind t \<noteq> r_Chan"
  then show "Send U node c = (Some (CompileError ''cannot send to non-channel type %v: %v''), c)"
    by (simp add: Send_def Errorf_def)
qed

theorem send_appends_atomically_witness:
  "Send (ex_collab (BasicT r_Int) (BasicT r_Int)) (SendStmt ''ch'' ''42'') ex_comp =
       (Some (CompileError ''cannot send to non-channel type %v: %v''), ex_comp)
   \<and> fst (Send (ex_collab (ChanT r_BothDir (BasicT r_Int)) (BasicT r_Int)) (SendStmt ''ch'' ''x'') ex_comp) = None
   \<and> (\<exists>stmt. Code_List (snd (Send (ex_collab (ChanT r_BothDir (BasicT r_Int)) (BasicT r_Int))
          (SendStmt ''ch'' ''x'') ex_comp)) = Code_List ex_comp @ [stmt])"
proof -
  let ?U = "ex_collab (BasicT r_Int) (BasicT r_Int)"
  let ?V = "ex_collab (ChanT r_BothDir (BasicT r_Int)) (BasicT r_Int)"
  have h: "Expr1 ?U (SendStmt_Chan (SendStmt ''ch'' ''42'')) = Inr (ex_chan (BasicT r_Int)) \<and>
      Type (ex_chan (BasicT r_Int)) = Some (BasicT r_Int) \<and> Kind (BasicT r_Int) \<noteq> r_Chan"
    by (simp add: ex_collab_def ex_chan_def)
  have ok: "fst (Send ?V (SendStmt ''ch'' ''x'') ex_comp) = None"
    by (simp add: Send_def ex_collab_def ex_chan_def ex_var_def Const_def)
  from send_appends_atomically [of ?U "SendStmt ''ch'' ''42''" ex_comp "ex_chan (BasicT r_Int)" "BasicT r_Int"] h
  have 1: "Send ?U (SendStmt ''ch'' ''42'') ex_comp =
       (Some (CompileError ''cannot send to non-channel type %v: %v''), ex_comp)"
    by blast
  from send_appends_atomically [of ?V "SendStmt ''ch'' ''x''" ex_comp] ok
  have 2: "\<exists>stmt. Code_List (snd (Send ?V (SendStmt ''ch'' ''x'') ex_comp)) = Code_List ex_comp @ [stmt]"
    by simp
  from 1 ok 2 show ?thesis by blast
qed

section \<open>The compiled send as a sequential instruction\<close>







section \<open>Receiving from a closed, drained channel\<close>



section \<open>The two views of a two-value receive\<close>

lemma Recv_Inr:
  assumes "Recv node xe = Inr e"
  shows "Fun e = Recv_closure (chan_of_expr xe)"
  using assms by (auto simp add: Recv_def exprXV_def split: option.splits if_splits)

text \<open>
  Claim C9. The closure compiled by \<^verbatim>\<open>Recv\<close> returns the value \<open>r\<close> with the list \<open>vs\<close>
  exactly when the channel expression evaluates to a channel on which
  \<^verbatim>\<open>reflect.Value.Recv\<close> returns \<open>r\<close> and a flag \<open>ok\<close>, and \<open>vs\<close> is the list of \<open>r\<close> itself
  and of \<^verbatim>\<open>base.True\<close> when \<open>ok\<close> holds, \<^verbatim>\<open>base.False\<close> otherwise.
\<close>

theorem recv_views_agree:
  assumes "Recv node xe = Inr e"
  shows "Recv_fun (Fun e) env h = Ok ((r, vs), h') \<longleftrightarrow>
     (\<exists>channel h1 ok. eval_chan (chan_of_expr xe) env h = Ok (channel, h1) \<and>
        Value_Recv channel h1 = Ok ((r, ok), h') \<and>
        vs = [r, if ok then base_True else base_False])"
  unfolding Recv_Inr [OF assms] by (auto simp add: thenR_Ok ret_Ok)

theorem recv_views_agree_witness:
  "Recv ''<-ch'' (ex_chan (ChanT r_BothDir ex_MyInt)) =
     Inr (exprXV [ex_MyInt, xr_TypeOfBool] (Recv_closure (chan_of_expr (ex_chan (ChanT r_BothDir ex_MyInt)))))
   \<and> Recv_fun (Recv_closure (chan_of_expr (ex_chan (ChanT r_BothDir ex_MyInt)))) ex_env
        (ex_heap [VInt 5, VInt 6] False) =
      Ok ((RValue ex_MyInt (VInt 5), [RValue ex_MyInt (VInt 5), base_True]),
          (ex_heap [VInt 5, VInt 6] False)(0 := \<lparr>buf = [VInt 6], dataqsiz = 2, is_closed = False\<rparr>))"
proof -
  let ?xe = "ex_chan (ChanT r_BothDir ex_MyInt)"
  let ?e = "exprXV [ex_MyInt, xr_TypeOfBool] (Recv_closure (chan_of_expr ?xe))"
  let ?h = "ex_heap [VInt 5, VInt 6] False"
  let ?h' = "?h(0 := \<lparr>buf = [VInt 6], dataqsiz = 2, is_closed = False\<rparr>)"
  have a: "Recv ''<-ch'' ?xe = Inr ?e"
    by (simp add: Recv_def ex_chan_def)
  have ev: "eval_chan (chan_of_expr ?xe) ex_env ?h = Ok (RValue (ChanT r_BothDir ex_MyInt) (VChan (Some 0)), ?h)"
    by (simp add: chan_of_expr_def ex_chan_def AsX1_def ret_def)
  have vr: "Value_Recv (RValue (ChanT r_BothDir ex_MyInt) (VChan (Some 0))) ?h =
      Ok ((RValue ex_MyInt (VInt 5), True), ?h')"
    by (simp add: Value_Recv_def chanrecv_def thenR_def ret_def ex_heap_def)
  have "Recv_fun (Fun ?e) ex_env ?h =
      Ok ((RValue ex_MyInt (VInt 5), [RValue ex_MyInt (VInt 5), base_True]), ?h')"
    using recv_views_agree [OF a, of ex_env ?h "RValue ex_MyInt (VInt 5)"
        "[RValue ex_MyInt (VInt 5), base_True]" ?h'] ev vr
    by auto
  with a show ?thesis by (simp add: exprXV_def)
qed

section \<open>The dispatch between the native and the reflective tier\<close>

text \<open>
  Claim C2, as stated, fails: on a bidirectional \<^verbatim>\<open>chan int\<close>, an element type that is
  exactly the predefined \<^verbatim>\<open>int\<close>, \<^verbatim>\<open>Recv\<close> emits its one closure, which receives through
  \<^verbatim>\<open>reflect.Value.Recv\<close>; \<^verbatim>\<open>Recv1\<close> emits the reflective closure when the channel
  expression is a \<^verbatim>\<open>func(*Env) (r.Value, []r.Value)\<close>; and \<^verbatim>\<open>Send\<close> emits the generic
  closure when the operand is compiled to a \<^verbatim>\<open>func(*Env) r.Value\<close>.
\<close>

theorem native_dispatch_counterexample:
  "Recv ''<-ch'' (ex_chan (ChanT r_BothDir (BasicT r_Int))) =
     Inr (exprXV [BasicT r_Int, xr_TypeOfBool]
       (Recv_closure (ChanX1 (AsX1 (ex_chan (ChanT r_BothDir (BasicT r_Int)))))))
   \<and> Recv_tier (Recv_closure (ChanX1 (AsX1 (ex_chan (ChanT r_BothDir (BasicT r_Int))))) :: nat recv_closure)
       \<noteq> Native
   \<and> Recv1 ''<-f()'' (ex_call (ChanT r_BothDir (BasicT r_Int))) =
     Inr (exprFun (BasicT r_Int) (Recv1_reflect r_Int
       (ChanXV (ex_call_fun (ChanT r_BothDir (BasicT r_Int))))))
   \<and> Recv1_tier (Recv1_reflect r_Int
       (ChanXV (ex_call_fun (ChanT r_BothDir (BasicT r_Int)))) :: nat recv1_closure)
       \<noteq> Native
   \<and> Send (ex_collab (ChanT r_BothDir (BasicT r_Int)) (BasicT r_Int)) (SendStmt ''ch'' ''y'') ex_comp =
     (None, Append ex_comp (Send_generic (AsX1 (ex_chan (ChanT r_BothDir (BasicT r_Int))))
        (AsX1 (ex_boxed (BasicT r_Int))) (BasicT r_Int)))
   \<and> Send_tier (Send_generic (AsX1 (ex_chan (ChanT r_BothDir (BasicT r_Int))))
        (AsX1 (ex_boxed (BasicT r_Int))) (BasicT r_Int)) \<noteq> Some Native"
  by (simp add: Recv_def Recv1_def Send_def Send_expr_def chan_of_expr_def ex_chan_def ex_call_def
      ex_boxed_def ex_collab_def Const_def)

text \<open>
  Claim C2, amended. On a channel whose element type is exactly the predefined basic
  type of kind \<open>b\<close>:
  \<^item> \<^verbatim>\<open>Recv1\<close> emits the native closure, asserting \<^verbatim>\<open><-chan T\<close> for a receive-only
    channel type and \<^verbatim>\<open>chan T\<close> otherwise, when the channel expression is not a
    \<^verbatim>\<open>func(*Env) (r.Value, []r.Value)\<close>;
  \<^item> \<^verbatim>\<open>Send\<close> with a constant operand, converted to the element type and of a value that
    the accessor of kind \<open>b\<close> accepts, emits the native closure holding that value,
    asserting \<^verbatim>\<open>chan<- T\<close> for a send-only channel type and \<^verbatim>\<open>chan T\<close> otherwise;
  \<^item> \<^verbatim>\<open>Send\<close> with an assignable operand that is not a constant and is compiled to a
    \<^verbatim>\<open>func(*Env) T\<close> of that very type emits the native closure calling it;
  \<^item> \<^verbatim>\<open>Recv\<close> always emits a reflective closure.
\<close>

theorem native_dispatch:
  "(Type xe = Some t \<and> ChanDir t = Some d \<and> Elem t = Some (BasicT b) \<and>
      dir_bits d AND dir_bits r_RecvDir \<noteq> 0 \<and> (\<forall>x. Fun xe \<noteq> XV x) \<longrightarrow>
      (\<exists>e. Recv1 node xe = Inr e \<and>
         Fun e = Recv1_native (if d = r_RecvDir then r_RecvDir else r_BothDir) b (AsX1 xe) \<and>
         Recv1_tier (Fun e) = Native))
   \<and> (Expr1 U (SendStmt_Chan sn) = Inr channel \<and> Type channel = Some t' \<and>
      ChanDir t' = Some d' \<and> Elem t' = Some (BasicT b') \<and>
      dir_bits d' AND dir_bits r_SendDir \<noteq> 0 \<and> Expr1 U (SendStmt_Value sn) = Inr expr \<and>
      Const expr \<and> ConstTo U expr (BasicT b') = Inr expr' \<and> Value expr' = Some v \<and>
      unbox b' v = Inr lit \<longrightarrow>
      (\<exists>s. Send U sn c = (None, Append c s) \<and>
         s = Send_const_native (if d' = r_SendDir then r_SendDir else r_BothDir) b' (AsX1 channel) lit \<and>
         Send_tier s = Some Native))
   \<and> (Expr1 U (SendStmt_Chan sn) = Inr channel \<and> Type channel = Some t' \<and>
      ChanDir t' = Some d' \<and> Elem t' = Some (BasicT b') \<and>
      dir_bits d' AND dir_bits r_SendDir \<noteq> 0 \<and> Expr1 U (SendStmt_Value sn) = Inr expr \<and>
      \<not> Const expr \<and> Type expr = Some ty \<and> AssignableTo U ty (BasicT b') \<and>
      Fun expr = FB b' f \<longrightarrow>
      (\<exists>s. Send U sn c = (None, Append c s) \<and>
         s = Send_native (if d' = r_SendDir then r_SendDir else r_BothDir) b' (AsX1 channel) f \<and>
         Send_tier s = Some Native))
   \<and> (Recv node xe = Inr e2 \<longrightarrow> Recv_tier (Fun e2) = Reflective)"
proof (intro conjI impI)
  assume a: "Type xe = Some t \<and> ChanDir t = Some d \<and> Elem t = Some (BasicT b) \<and>
      dir_bits d AND dir_bits r_RecvDir \<noteq> 0 \<and> (\<forall>x. Fun xe \<noteq> XV x)"
  then have k: "Kind t = r_Chan" using ChanDir_Some_Kind by blast
  from a have d: "d \<noteq> r_SendDir" by (cases d) simp_all
  from a k d show "\<exists>e. Recv1 node xe = Inr e \<and>
         Fun e = Recv1_native (if d = r_RecvDir then r_RecvDir else r_BothDir) b (AsX1 xe) \<and>
         Recv1_tier (Fun e) = Native"
    by (cases d; cases "Fun xe")
       (simp_all add: Recv1_def exprFun_def BasicType_def Let_def)
next
  assume a: "Expr1 U (SendStmt_Chan sn) = Inr channel \<and> Type channel = Some t' \<and>
      ChanDir t' = Some d' \<and> Elem t' = Some (BasicT b') \<and>
      dir_bits d' AND dir_bits r_SendDir \<noteq> 0 \<and> Expr1 U (SendStmt_Value sn) = Inr expr \<and>
      Const expr \<and> ConstTo U expr (BasicT b') = Inr expr' \<and> Value expr' = Some v \<and>
      unbox b' v = Inr lit"
  then have k: "Kind t' = r_Chan" using ChanDir_Some_Kind by blast
  from a have d: "d' \<noteq> r_RecvDir" by (cases d') simp_all
  from a k d show "\<exists>s. Send U sn c = (None, Append c s) \<and>
         s = Send_const_native (if d' = r_SendDir then r_SendDir else r_BothDir) b' (AsX1 channel) lit \<and>
         Send_tier s = Some Native"
    by (cases d') (simp_all add: Send_def Send_const_def Const_def Let_def)
next
  assume a: "Expr1 U (SendStmt_Chan sn) = Inr channel \<and> Type channel = Some t' \<and>
      ChanDir t' = Some d' \<and> Elem t' = Some (BasicT b') \<and>
      dir_bits d' AND dir_bits r_SendDir \<noteq> 0 \<and> Expr1 U (SendStmt_Value sn) = Inr expr \<and>
      \<not> Const expr \<and> Type expr = Some ty \<and> AssignableTo U ty (BasicT b') \<and>
      Fun expr = FB b' f"
  then have k: "Kind t' = r_Chan" using ChanDir_Some_Kind by blast
  from a have d: "d' \<noteq> r_RecvDir" by (cases d') simp_all
  from a k d show "\<exists>s. Send U sn c = (None, Append c s) \<and>
         s = Send_native (if d' = r_SendDir then r_SendDir else r_BothDir) b' (AsX1 channel) f \<and>
         Send_tier s = Some Native"
    by (cases d') (simp_all add: Send_def Send_expr_def Let_def)
next
  assume "Recv node xe = Inr e2"
  then show "Recv_tier (Fun e2) = Reflective"
    by (simp add: Recv_Inr)
qed


theorem native_dispatch_witness:
  "(\<exists>e. Recv1 ''<-ch'' (ex_chan (ChanT r_RecvDir (BasicT r_Int))) = Inr e \<and>
      Fun e = Recv1_native r_RecvDir r_Int (AsX1 (ex_chan (ChanT r_RecvDir (BasicT r_Int)))) \<and>
      Recv1_tier (Fun e) = Native)
   \<and> Send (ex_collab (ChanT r_SendDir (BasicT r_Int)) (BasicT r_Int)) (SendStmt ''ch'' ''42'') ex_comp =
     (None, Append ex_comp (Send_const_native r_SendDir r_Int
        (AsX1 (ex_chan (ChanT r_SendDir (BasicT r_Int)))) (VInt 42)))
   \<and> Send (ex_collab (ChanT r_SendDir (BasicT r_Int)) (BasicT r_Int)) (SendStmt ''ch'' ''x'') ex_comp =
     (None, Append ex_comp (Send_native r_SendDir r_Int
        (AsX1 (ex_chan (ChanT r_SendDir (BasicT r_Int)))) ex_seven))
   \<and> Recv_tier (Fun (exprXV [BasicT r_Int, xr_TypeOfBool]
        (Recv_closure (chan_of_expr (ex_chan (ChanT r_RecvDir (BasicT r_Int))))))) = Reflective"
proof -
  let ?tr = "ChanT r_RecvDir (BasicT r_Int)"
  let ?ts = "ChanT r_SendDir (BasicT r_Int)"
  let ?U = "ex_collab ?ts (BasicT r_Int)"
  let ?k = "ex_lit\<lparr>Type := Some (BasicT r_Int), Value := Some (RValue (BasicT r_Int) (VInt 42))\<rparr>"
  have r: "Type (ex_chan ?tr) = Some ?tr \<and> ChanDir ?tr = Some r_RecvDir \<and>
      Elem ?tr = Some (BasicT r_Int) \<and> dir_bits r_RecvDir AND dir_bits r_RecvDir \<noteq> 0 \<and>
      (\<forall>x. Fun (ex_chan ?tr) \<noteq> XV x)"
    by (simp add: ex_chan_def)
  have s1: "Expr1 ?U (SendStmt_Chan (SendStmt ''ch'' ''42'')) = Inr (ex_chan ?ts) \<and>
      Type (ex_chan ?ts) = Some ?ts \<and> ChanDir ?ts = Some r_SendDir \<and>
      Elem ?ts = Some (BasicT r_Int) \<and> dir_bits r_SendDir AND dir_bits r_SendDir \<noteq> 0 \<and>
      Expr1 ?U (SendStmt_Value (SendStmt ''ch'' ''42'')) = Inr ex_lit \<and>
      Const ex_lit \<and> ConstTo ?U ex_lit (BasicT r_Int) = Inr ?k \<and>
      Value ?k = Some (RValue (BasicT r_Int) (VInt 42)) \<and>
      unbox r_Int (RValue (BasicT r_Int) (VInt 42)) = Inr (VInt 42)"
    by (simp add: ex_collab_def ex_chan_def ex_lit_def Const_def)
  have s2: "Expr1 ?U (SendStmt_Chan (SendStmt ''ch'' ''x'')) = Inr (ex_chan ?ts) \<and>
      Type (ex_chan ?ts) = Some ?ts \<and> ChanDir ?ts = Some r_SendDir \<and>
      Elem ?ts = Some (BasicT r_Int) \<and> dir_bits r_SendDir AND dir_bits r_SendDir \<noteq> 0 \<and>
      Expr1 ?U (SendStmt_Value (SendStmt ''ch'' ''x'')) = Inr (ex_var (BasicT r_Int)) \<and>
      \<not> Const (ex_var (BasicT r_Int)) \<and> Type (ex_var (BasicT r_Int)) = Some (BasicT r_Int) \<and>
      AssignableTo ?U (BasicT r_Int) (BasicT r_Int) \<and>
      Fun (ex_var (BasicT r_Int)) = FB r_Int ex_seven"
    by (simp add: ex_collab_def ex_chan_def ex_var_def Const_def)
  have rv: "Recv ''<-ch'' (ex_chan ?tr) =
      Inr (exprXV [BasicT r_Int, xr_TypeOfBool] (Recv_closure (chan_of_expr (ex_chan ?tr))))"
    by (simp add: Recv_def ex_chan_def)
  have 1: "\<exists>e. Recv1 ''<-ch'' (ex_chan ?tr) = Inr e \<and>
      Fun e = Recv1_native r_RecvDir r_Int (AsX1 (ex_chan ?tr)) \<and> Recv1_tier (Fun e) = Native"
    using native_dispatch [where xe = "ex_chan ?tr" and t = ?tr and d = r_RecvDir and b = r_Int
        and node = "''<-ch''", THEN conjunct1, THEN mp, OF r]
    by simp
  have 2: "Send ?U (SendStmt ''ch'' ''42'') ex_comp =
     (None, Append ex_comp (Send_const_native r_SendDir r_Int (AsX1 (ex_chan ?ts)) (VInt 42)))"
    using native_dispatch [where U = ?U and sn = "SendStmt ''ch'' ''42''" and channel = "ex_chan ?ts"
        and t' = ?ts and d' = r_SendDir and b' = r_Int and expr = ex_lit and expr' = ?k
        and v = "RValue (BasicT r_Int) (VInt 42)" and lit = "VInt 42" and c = ex_comp,
        THEN conjunct2, THEN conjunct1, THEN mp, OF s1]
    by simp
  have 3: "Send ?U (SendStmt ''ch'' ''x'') ex_comp =
     (None, Append ex_comp (Send_native r_SendDir r_Int (AsX1 (ex_chan ?ts)) ex_seven))"
    using native_dispatch [where U = ?U and sn = "SendStmt ''ch'' ''x''" and channel = "ex_chan ?ts"
        and t' = ?ts and d' = r_SendDir and b' = r_Int and expr = "ex_var (BasicT r_Int)"
        and ty = "BasicT r_Int" and f = ex_seven and c = ex_comp,
        THEN conjunct2, THEN conjunct2, THEN conjunct1, THEN mp, OF s2]
    by simp
  have 4: "Recv_tier (Fun (exprXV [BasicT r_Int, xr_TypeOfBool]
        (Recv_closure (chan_of_expr (ex_chan ?tr))))) = Reflective"
    using native_dispatch [where node = "''<-ch''" and xe = "ex_chan ?tr"
        and ?e2.0 = "exprXV [BasicT r_Int, xr_TypeOfBool] (Recv_closure (chan_of_expr (ex_chan ?tr)))",
        THEN conjunct2, THEN conjunct2, THEN conjunct2, THEN mp, OF rv] .
  from 1 2 3 4 show ?thesis by blast
qed

section \<open>A constant operand is embedded in the instruction\<close>





section \<open>The reflective tier on a user type against the native tier on the basic type\<close>














end
